theory Spec2Isabelle
  imports Complex_Main "HOL-Library.Sublist"
begin

section \<open>JavaScript strings\<close>

text \<open>
  A JavaScript string is a sequence of UTF-16 code units. The model uses \<^typ>\<open>string\<close>, whose
  characters are the code units 0 to 255 (the Latin-1 range); \<open>length\<close> is the
  \<^verbatim>\<open>.length\<close> of the source. The white space of \<^verbatim>\<open>String.prototype.trim\<close> and of the
  regular expression class \<^verbatim>\<open>\s\<close> in that range is TAB, LF, VT, FF, CR, SPACE and the
  no-break space U+00A0.
\<close>

definition isWhiteSpace :: "char \<Rightarrow> bool" where
  "isWhiteSpace c =
     (c = CHR 0x09 \<or> c = CHR 0x0A \<or> c = CHR 0x0B \<or> c = CHR 0x0C \<or> c = CHR 0x0D
      \<or> c = CHR 0x20 \<or> c = CHR 0xA0)"

text \<open>\<^verbatim>\<open>s.trim()\<close>: the white space at both ends is removed.\<close>

definition trim :: "string \<Rightarrow> string" where
  "trim s = rev (dropWhile isWhiteSpace (rev (dropWhile isWhiteSpace s)))"

text \<open>
  \<^verbatim>\<open>s.toLowerCase()\<close> on the code units 0 to 255: the letters A to Z and the accented capitals
  U+00C0 to U+00DE (the multiplication sign U+00D7 apart) move up by 32, every other code
  unit stays.
\<close>

definition toLowerCaseChar :: "char \<Rightarrow> char" where
  "toLowerCaseChar c =
     (let n = (of_char c :: nat)
      in if (65 \<le> n \<and> n \<le> 90) \<or> (192 \<le> n \<and> n \<le> 222 \<and> n \<noteq> 215)
         then char_of (n + 32) else c)"

definition toLowerCase :: "string \<Rightarrow> string" where
  "toLowerCase s = map toLowerCaseChar s"

text \<open>
  \<^verbatim>\<open>s.split(/\s+/)\<close>: the pieces between the maximal runs of white space. A run at the start
  or at the end of the string leaves an empty piece there, and the empty string splits into
  one empty piece. \<open>cur\<close> is the piece being read, \<open>inRun\<close> says that the last code unit
  was white space.
\<close>

fun splitAux :: "string \<Rightarrow> bool \<Rightarrow> string \<Rightarrow> string list" where
  "splitAux cur inRun [] = [cur]"
| "splitAux cur inRun (c # cs) =
     (if isWhiteSpace c
      then (if inRun then splitAux cur True cs else cur # splitAux [] True cs)
      else splitAux (cur @ [c]) False cs)"

definition splitWhiteSpace :: "string \<Rightarrow> string list" where
  "splitWhiteSpace s = splitAux [] False s"

text \<open>\<^verbatim>\<open>hay.includes(needle)\<close>: \<open>needle\<close> occurs in \<open>hay\<close> as a contiguous substring.\<close>

fun stringIncludes :: "string \<Rightarrow> string \<Rightarrow> bool" where
  "stringIncludes [] needle = (needle = [])"
| "stringIncludes (c # cs) needle = (prefix needle (c # cs) \<or> stringIncludes cs needle)"

section \<open>Types (types/index.ts)\<close>

datatype TargetLength = SHORT | MEDIUM | LONG

text \<open>The string each member of the enum stands for at run time.\<close>

fun targetLengthValue :: "TargetLength \<Rightarrow> string" where
  "targetLengthValue SHORT = ''short''"
| "targetLengthValue MEDIUM = ''medium''"
| "targetLengthValue LONG = ''long''"

datatype ErrorType =
  API_KEY_ERROR | NETWORK_ERROR | API_ERROR | VALIDATION_ERROR | RATE_LIMIT_ERROR | UNKNOWN_ERROR

text \<open>
  What a \<^verbatim>\<open>catch\<close> block of the service can receive: an \<^verbatim>\<open>OpenAI.APIError\<close> with its
  optional HTTP status and its message, any other \<^verbatim>\<open>Error\<close> with its message, or a thrown
  value that is no \<^verbatim>\<open>Error\<close> at all.
\<close>

datatype thrown =
  APIError "nat option" string
| OtherError string
| NonError

text \<open>
  The third argument of \<^verbatim>\<open>new AppError(type, message, details)\<close>: absent, the value that
  was caught, or a \<^verbatim>\<open>ZodError\<close> with the messages of its issues.
\<close>

datatype details = NoDetails | Caught thrown | ZodError "string list"

record AppError =
  type :: ErrorType
  message :: string
  details :: details

record ParaphraseRequest =
  description :: string
  targetLength :: "TargetLength option"

record ParaphraseResponse =
  original :: string
  paraphrased :: string
  timestamp :: nat
  tokensUsed :: "nat option"

record OpenAIConfig =
  apiKey :: string
  model :: string
  maxTokens :: nat
  temperature :: real

section \<open>Input validation (utils/validation.ts)\<close>

definition MAX_DESCRIPTION_LENGTH :: nat where
  "MAX_DESCRIPTION_LENGTH = 5000"

definition MIN_DESCRIPTION_LENGTH :: nat where
  "MIN_DESCRIPTION_LENGTH = 10"

text \<open>
  A zod string schema is the list of the checks chained on \<^verbatim>\<open>z.string()\<close>, in the order
  of the chain. \<^verbatim>\<open>parse\<close> runs them in that order on the current data: \<^verbatim>\<open>min\<close> and
  \<^verbatim>\<open>max\<close> compare its \<^verbatim>\<open>.length\<close> and record an issue with their message, \<^verbatim>\<open>trim\<close>
  replaces the data by its trimmed form for the checks after it. With no issue the data is
  returned, otherwise a \<^verbatim>\<open>ZodError\<close> with the issues is thrown.
\<close>

datatype zodCheck = Min nat string | Max nat string | Trim

fun runChecks :: "zodCheck list \<Rightarrow> string \<Rightarrow> string list \<Rightarrow> string \<times> string list" where
  "runChecks [] val issues = (val, issues)"
| "runChecks (Min k msg # cs) val issues =
     runChecks cs val (if length val < k then issues @ [msg] else issues)"
| "runChecks (Max k msg # cs) val issues =
     runChecks cs val (if length val > k then issues @ [msg] else issues)"
| "runChecks (Trim # cs) val issues = runChecks cs (trim val) issues"

definition zodStringParse :: "zodCheck list \<Rightarrow> string \<Rightarrow> string list + string" where
  "zodStringParse schema input =
     (case runChecks schema input [] of
        (val, []) \<Rightarrow> Inr val
      | (val, i # issues) \<Rightarrow> Inl (i # issues))"

text \<open>
  \<^verbatim>\<open>z.string().min(MIN_DESCRIPTION_LENGTH, ...).max(MAX_DESCRIPTION_LENGTH, ...).trim()\<close>, the
  two template literals written out.
\<close>

definition descriptionSchema :: "zodCheck list" where
  "descriptionSchema =
     [Min MIN_DESCRIPTION_LENGTH ''Description must be at least 10 characters'',
      Max MAX_DESCRIPTION_LENGTH ''Description must be at most 5000 characters'',
      Trim]"

text \<open>
  \<^verbatim>\<open>error.errors[0]?.message || 'Unknown validation error'\<close>: the message of the first
  issue, unless it is missing or empty.
\<close>

definition firstIssueMessage :: "string list \<Rightarrow> string" where
  "firstIssueMessage issues =
     (case issues of
        [] \<Rightarrow> ''Unknown validation error''
      | m # _ \<Rightarrow> if m = [] then ''Unknown validation error'' else m)"

definition validateDescription :: "string \<Rightarrow> AppError + string" where
  "validateDescription d =
     (case zodStringParse descriptionSchema d of
        Inr val \<Rightarrow> Inr val
      | Inl issues \<Rightarrow>
          Inl \<lparr>type = VALIDATION_ERROR,
               message = ''Invalid description: '' @ firstIssueMessage issues,
               details = ZodError issues\<rparr>)"

text \<open>
  \<^verbatim>\<open>z.nativeEnum(TargetLength).optional().parse(length)\<close> on a string: the member whose
  value the string is, or a \<^verbatim>\<open>ZodError\<close> with one issue (message
  \<^verbatim>\<open>Invalid enum value. Expected 'short' | 'medium' | 'long', received '...'\<close>).
\<close>

definition targetLengthSchemaParse :: "string \<Rightarrow> string list + TargetLength" where
  "targetLengthSchemaParse s =
     (if s = targetLengthValue SHORT then Inr SHORT
      else if s = targetLengthValue MEDIUM then Inr MEDIUM
      else if s = targetLengthValue LONG then Inr LONG
      else Inl [''Invalid enum value. Expected '' @ [CHR 0x27] @ ''short'' @ [CHR 0x27]
                @ '' | '' @ [CHR 0x27] @ ''medium'' @ [CHR 0x27]
                @ '' | '' @ [CHR 0x27] @ ''long'' @ [CHR 0x27]
                @ '', received '' @ [CHR 0x27] @ s @ [CHR 0x27]])"

text \<open>
  \<^verbatim>\<open>validateTargetLength(length: string | undefined)\<close>: \<open>None\<close> is \<^verbatim>\<open>undefined\<close>, and
  \<^verbatim>\<open>!length\<close> holds for \<^verbatim>\<open>undefined\<close> and for the empty string.
\<close>

definition validateTargetLength :: "string option \<Rightarrow> AppError + TargetLength option" where
  "validateTargetLength len =
     (case len of
        None \<Rightarrow> Inr None
      | Some s \<Rightarrow>
          if s = [] then Inr None
          else (case targetLengthSchemaParse s of
                  Inr t \<Rightarrow> Inr (Some t)
                | Inl issues \<Rightarrow>
                    Inl \<lparr>type = VALIDATION_ERROR,
                         message = ''Invalid target length: '' @ [CHR 0x22] @ s @ [CHR 0x22]
                                   @ ''. Valid options are: short, medium, long'',
                         details = ZodError issues\<rparr>))"

text \<open>
  \<^verbatim>\<open>input.replace(/[<>]/g, '')\<close> removes every angle bracket;
  \<^verbatim>\<open>.replace(/\\n/g, '\n')\<close> turns each backslash followed by the letter n into one line
  feed, scanning from the left without overlaps.
\<close>

definition removeAngleBrackets :: "string \<Rightarrow> string" where
  "removeAngleBrackets s = filter (\<lambda>c. c \<noteq> CHR ''<'' \<and> c \<noteq> CHR ''>'') s"

fun unescapeNewlines :: "string \<Rightarrow> string" where
  "unescapeNewlines [] = []"
| "unescapeNewlines [c] = [c]"
| "unescapeNewlines (c # d # cs) =
     (if c = CHR 0x5C \<and> d = CHR ''n'' then CHR 0x0A # unescapeNewlines cs
      else c # unescapeNewlines (d # cs))"

definition sanitizeInput :: "string \<Rightarrow> string" where
  "sanitizeInput input = trim (unescapeNewlines (removeAngleBrackets input))"

definition startsWithWhiteSpace :: "string \<Rightarrow> bool" where
  "startsWithWhiteSpace s = (case s of [] \<Rightarrow> False | c # _ \<Rightarrow> isWhiteSpace c)"

definition endsWithWhiteSpace :: "string \<Rightarrow> bool" where
  "endsWithWhiteSpace s = startsWithWhiteSpace (rev s)"

section \<open>The OpenAI client (utils/openai-client.ts)\<close>

text \<open>
  \<^verbatim>\<open>handleOpenAIError(error: unknown): never\<close>. A call either throws an \<open>AppError\<close>
  (\<open>Inl\<close>) or returns (\<open>Inr\<close>); the log calls are left out.
\<close>

fun handleOpenAIError :: "thrown \<Rightarrow> AppError + unit" where
  "handleOpenAIError (APIError status msg) =
     (if status = Some 401
      then Inl \<lparr>type = API_KEY_ERROR,
                message = ''Invalid OpenAI API key. Please check your configuration.'',
                details = Caught (APIError status msg)\<rparr>
      else if status = Some 429
      then Inl \<lparr>type = RATE_LIMIT_ERROR,
                message = ''OpenAI API rate limit exceeded. Please try again later.'',
                details = Caught (APIError status msg)\<rparr>
      else Inl \<lparr>type = API_ERROR,
                message = ''OpenAI API error: '' @ msg,
                details = Caught (APIError status msg)\<rparr>)"
| "handleOpenAIError (OtherError msg) =
     (if stringIncludes msg ''ECONNREFUSED'' \<or> stringIncludes msg ''ETIMEDOUT''
      then Inl \<lparr>type = NETWORK_ERROR,
                message = ''Unable to connect to OpenAI API. Please check your internet connection.'',
                details = Caught (OtherError msg)\<rparr>
      else Inl \<lparr>type = UNKNOWN_ERROR,
                message = ''An unexpected error occurred while calling OpenAI API'',
                details = Caught (OtherError msg)\<rparr>)"
| "handleOpenAIError NonError =
     Inl \<lparr>type = UNKNOWN_ERROR,
          message = ''An unexpected error occurred while calling OpenAI API'',
          details = Caught NonError\<rparr>"

text \<open>
  The chat completion endpoint. A request carries the fields the service passes
  (\<open>req_model\<close>, \<open>req_temperature\<close> and \<open>candidates\<close> are the fields \<^verbatim>\<open>model\<close>,
  \<^verbatim>\<open>temperature\<close> and \<^verbatim>\<open>n\<close>); a completion has its candidate list and its optional
  usage report. Reading \<^verbatim>\<open>choices[0]?.message?.content\<close> can fail at each step, so each
  is optional.
\<close>

datatype role = System | User

record chatMessage =
  role :: role
  content :: string

record chatRequest =
  req_model :: string
  messages :: "chatMessage list"
  max_tokens :: nat
  req_temperature :: real
  candidates :: nat

datatype completionMessage = CompletionMessage "string option"

datatype choice = Choice "completionMessage option"

datatype completionUsage = CompletionUsage nat

fun total_tokens :: "completionUsage \<Rightarrow> nat" where
  "total_tokens (CompletionUsage k) = k"

record chatCompletion =
  choices :: "choice list"
  usage :: "completionUsage option"

text \<open>
  The client handle: \<open>respond\<close> is what the remote endpoint does with a request (it throws
  or it completes), \<open>sent\<close> the requests issued so far.
  \<^verbatim>\<open>openaiClient.chat.completions.create(r)\<close> issues one request.
\<close>

record client =
  respond :: "chatRequest \<Rightarrow> thrown + chatCompletion"
  sent :: "chatRequest list"

definition create :: "client \<Rightarrow> chatRequest \<Rightarrow> (thrown + chatCompletion) \<times> client" where
  "create c r = (respond c r, c\<lparr>sent := sent c @ [r]\<rparr>)"

section \<open>The paraphrase service (services/paraphrase.service.ts)\<close>

definition generateSystemPrompt :: "TargetLength option \<Rightarrow> string" where
  "generateSystemPrompt hint =
     (let prompt = ''You are a helpful assistant that rewrites product descriptions. '';
          prompt = prompt @ ''Use simple, clear language that anyone can understand. '';
          prompt = prompt @ ''Keep the meaning and all important details, but use different words and sentence structures. '';
          prompt =
            (case hint of
               None \<Rightarrow> prompt
             | Some SHORT \<Rightarrow>
                 prompt @ ''Make the paraphrase concise and shorter than the original. ''
             | Some LONG \<Rightarrow>
                 prompt @ ''Expand the description with more details and context. ''
             | Some MEDIUM \<Rightarrow>
                 prompt @ ''Keep the paraphrase approximately the same length as the original. '')
      in prompt @ ''The paraphrase should be easy to read and understand while being completely different from the original text.'')"

definition generateUserPrompt :: "string \<Rightarrow> string" where
  "generateUserPrompt d =
     ''Please paraphrase the following product description:'' @ [CHR 0x0A, CHR 0x0A] @ d"

text \<open>The two messages \<open>paraphrase\<close> prepares for a request.\<close>

definition buildMessages :: "ParaphraseRequest \<Rightarrow> chatMessage list" where
  "buildMessages request =
     [\<lparr>role = System, content = generateSystemPrompt (targetLength request)\<rparr>,
      \<lparr>role = User, content = generateUserPrompt (description request)\<rparr>]"

text \<open>\<^verbatim>\<open>completion.choices[0]?.message?.content?.trim()\<close>; \<open>None\<close> is \<^verbatim>\<open>undefined\<close>.\<close>

fun paraphrasedText :: "chatCompletion \<Rightarrow> string option" where
  "paraphrasedText completion =
     (case choices completion of
        [] \<Rightarrow> None
      | Choice None # _ \<Rightarrow> None
      | Choice (Some (CompletionMessage None)) # _ \<Rightarrow> None
      | Choice (Some (CompletionMessage (Some text))) # _ \<Rightarrow> Some (trim text))"

text \<open>
  The \<^verbatim>\<open>catch\<close> block of \<open>paraphrase\<close>: it calls \<open>handleOpenAIError\<close> and has no
  statement after it, so if that call returned, \<open>paraphrase\<close> would return
  \<^verbatim>\<open>undefined\<close> (\<open>Inr None\<close>).
\<close>

definition catchBlock :: "thrown \<Rightarrow> AppError + ParaphraseResponse option" where
  "catchBlock e = (case handleOpenAIError e of Inl a \<Rightarrow> Inl a | Inr _ \<Rightarrow> Inr None)"

text \<open>
  The argument of \<^verbatim>\<open>chat.completions.create\<close>: the configured model, the two messages,
  the two knobs of the configuration and one candidate.
\<close>

definition completionRequest :: "OpenAIConfig \<Rightarrow> ParaphraseRequest \<Rightarrow> chatRequest" where
  "completionRequest cfg request =
     \<lparr>req_model = model cfg, messages = buildMessages request,
      max_tokens = maxTokens cfg, req_temperature = temperature cfg, candidates = 1\<rparr>"

text \<open>
  \<^verbatim>\<open>paraphrase(request)\<close> with the client handle, the configuration and \<open>now\<close>, the clock's
  reading at \<^verbatim>\<open>new Date()\<close>, as arguments. It returns the outcome and the client handle
  after the call. \<^verbatim>\<open>!paraphrasedText\<close> holds for \<^verbatim>\<open>undefined\<close> and for the empty string;
  the \<^verbatim>\<open>Error\<close> thrown then is caught by the same \<^verbatim>\<open>catch\<close> block as an error of the
  client. The log calls are left out.
\<close>

definition paraphrase ::
  "client \<Rightarrow> OpenAIConfig \<Rightarrow> nat \<Rightarrow> ParaphraseRequest
     \<Rightarrow> (AppError + ParaphraseResponse option) \<times> client" where
  "paraphrase c cfg now request =
     (let (result, c') = create c (completionRequest cfg request)
      in case result of
           Inl e \<Rightarrow> (catchBlock e, c')
         | Inr completion \<Rightarrow>
             (case paraphrasedText completion of
                None \<Rightarrow> (catchBlock (OtherError ''No paraphrase generated from the API''), c')
              | Some text \<Rightarrow>
                  if text = []
                  then (catchBlock (OtherError ''No paraphrase generated from the API''), c')
                  else (Inr (Some \<lparr>original = description request,
                                    paraphrased = text,
                                    timestamp = now,
                                    tokensUsed = map_option total_tokens (usage completion)\<rparr>),
                        c')))"

text \<open>
  \<^verbatim>\<open>isSignificantlyDifferent(original, paraphrased)\<close>. The quotient and the bound 0.7 are
  IEEE doubles in the source; for word counts below ten to the fourteenth (a string is far shorter) the double quotient
  lies on the same side of the double 0.7 as the exact quotient of \<open>7/10\<close>, so the model
  compares exactly.
\<close>

definition isSignificantlyDifferent :: "string \<Rightarrow> string \<Rightarrow> bool" where
  "isSignificantlyDifferent orig para =
     (if toLowerCase orig = toLowerCase para then False
      else
        (let originalWords = splitWhiteSpace (toLowerCase orig);
             paraphrasedWords = splitWhiteSpace (toLowerCase para);
             commonWords = filter (\<lambda>word. word \<in> set paraphrasedWords) originalWords;
             similarity = real (length commonWords)
                          / real (max (length originalWords) (length paraphrasedWords))
         in similarity < 7 / 10))"

section \<open>One request of the interactive loop (cli.ts, index.ts)\<close>

text \<open>\<^verbatim>\<open>lines.join('\n')\<close>.\<close>

fun joinLines :: "string list \<Rightarrow> string" where
  "joinLines [] = []"
| "joinLines [l] = l"
| "joinLines (l # ls) = l @ [CHR 0x0A] @ joinLines ls"

text \<open>
  \<^verbatim>\<open>promptForDescription()\<close> after its reading loop, \<open>ls\<close> being the lines read: the joined
  lines are sanitized, then validated; a validation error is rethrown.
\<close>

definition promptForDescription :: "string list \<Rightarrow> AppError + string" where
  "promptForDescription ls = validateDescription (sanitizeInput (joinLines ls))"

text \<open>
  The body of the loop of \<^verbatim>\<open>runInteractiveCLI\<close> up to the service call: the description is
  prompted for first, and an error thrown there leaves the \<^verbatim>\<open>try\<close> block before the
  request is built.
\<close>

definition processRequest ::
  "client \<Rightarrow> OpenAIConfig \<Rightarrow> nat \<Rightarrow> string list \<Rightarrow> TargetLength option
     \<Rightarrow> (AppError + ParaphraseResponse option) \<times> client" where
  "processRequest c cfg now ls hint =
     (case promptForDescription ls of
        Inl e \<Rightarrow> (Inl e, c)
      | Inr d \<Rightarrow> paraphrase c cfg now \<lparr>description = d, targetLength = hint\<rparr>)"

section \<open>Vocabulary of the properties\<close>

text \<open>
  A completion without usable text: no candidate, or a first candidate whose message or
  content is missing, or whose content is empty once trimmed.
\<close>

fun noUsableText :: "chatCompletion \<Rightarrow> bool" where
  "noUsableText completion =
     (case choices completion of
        [] \<Rightarrow> True
      | Choice None # _ \<Rightarrow> True
      | Choice (Some (CompletionMessage None)) # _ \<Rightarrow> True
      | Choice (Some (CompletionMessage (Some text))) # _ \<Rightarrow> trim text = [])"

text \<open>The tag of the error an outcome carries, if it is a failure.\<close>

definition failureType :: "AppError + 'a \<Rightarrow> ErrorType option" where
  "failureType outcome = (case outcome of Inl e \<Rightarrow> Some (type e) | Inr _ \<Rightarrow> None)"

text \<open>
  A stubbed endpoint: it answers every request with the same outcome, and nothing has
  been sent through it yet.
\<close>

definition stubClient :: "thrown + chatCompletion \<Rightarrow> client" where
  "stubClient outcome = \<lparr>respond = (\<lambda>_. outcome), sent = []\<rparr>"

definition stubCompletion :: "string \<Rightarrow> nat \<Rightarrow> chatCompletion" where
  "stubCompletion text u =
     \<lparr>choices = [Choice (Some (CompletionMessage (Some text)))],
      usage = Some (CompletionUsage u)\<rparr>"

definition exampleConfig :: OpenAIConfig where
  "exampleConfig = \<lparr>apiKey = ''sk-test'', model = ''gpt-5-nano'', maxTokens = 150, temperature = 7 / 10\<rparr>"

definition walletRequest :: ParaphraseRequest where
  "walletRequest =
     \<lparr>description = ''This premium leather wallet features multiple card slots, a bill compartment, and RFID protection for secure storage.'',
      targetLength = None\<rparr>"

definition walletRewrite :: string where
  "walletRewrite = ''A high-quality leather wallet with card slots, bill space, and technology to protect your cards from scanning.''"

text \<open>
  The three parts of the system prompt, as \<open>generateSystemPrompt\<close> writes them: the
  sentences before the switch, the clause of each case, and the closing sentence.
\<close>

definition promptOpening :: string where
  "promptOpening = ''You are a helpful assistant that rewrites product descriptions. Use simple, clear language that anyone can understand. Keep the meaning and all important details, but use different words and sentence structures. ''"

fun lengthClause :: "TargetLength \<Rightarrow> string" where
  "lengthClause SHORT = ''Make the paraphrase concise and shorter than the original. ''"
| "lengthClause MEDIUM = ''Keep the paraphrase approximately the same length as the original. ''"
| "lengthClause LONG = ''Expand the description with more details and context. ''"

definition promptClosing :: string where
  "promptClosing = ''The paraphrase should be easy to read and understand while being completely different from the original text.''"

text \<open>
  The overlap in the other direction: the number of words of the original (counted with
  their repetitions) that are also present in the paraphrase, divided by the larger of
  the two word counts.
\<close>

definition originalWordOverlap :: "string \<Rightarrow> string \<Rightarrow> real" where
  "originalWordOverlap orig para =
     (let originalWords = splitWhiteSpace (toLowerCase orig);
          paraphrasedWords = splitWhiteSpace (toLowerCase para)
      in real (length (filter (\<lambda>word. word \<in> set paraphrasedWords) originalWords))
         / real (max (length originalWords) (length paraphrasedWords)))"

text \<open>
  The overlap as the specification words it: the number of words of the paraphrase that
  are also present in the original, divided by the larger of the two word counts; and its
  verdict, true when the overlap is below 0.7 or when the texts are not identical up to
  case.
\<close>

definition specOverlap :: "string \<Rightarrow> string \<Rightarrow> real" where
  "specOverlap orig para =
     (let originalWords = splitWhiteSpace (toLowerCase orig);
          paraphrasedWords = splitWhiteSpace (toLowerCase para)
      in real (length (filter (\<lambda>word. word \<in> set originalWords) paraphrasedWords))
         / real (max (length originalWords) (length paraphrasedWords)))"

definition specSignificantlyDifferent :: "string \<Rightarrow> string \<Rightarrow> bool" where
  "specSignificantlyDifferent orig para =
     (specOverlap orig para < 7 / 10 \<or> toLowerCase orig \<noteq> toLowerCase para)"

section \<open>Properties of the string operations\<close>

lemma dropWhile_no_leading: "\<not> startsWithWhiteSpace (dropWhile isWhiteSpace s)"
  by (induction s) (simp_all add: startsWithWhiteSpace_def)

lemma dropEnd_keeps_head:
  "\<not> startsWithWhiteSpace s \<Longrightarrow> \<not> startsWithWhiteSpace (rev (dropWhile isWhiteSpace (rev s)))"
  by (cases s) (simp_all add: startsWithWhiteSpace_def dropWhile_append)

lemma trim_no_leading: "\<not> startsWithWhiteSpace (trim s)"
  unfolding trim_def by (rule dropEnd_keeps_head) (rule dropWhile_no_leading)

lemma trim_no_trailing: "\<not> endsWithWhiteSpace (trim s)"
  by (simp add: endsWithWhiteSpace_def trim_def dropWhile_no_leading)

lemma set_trim: "set (trim s) \<subseteq> set s"
proof -
  have "set (trim s) \<subseteq> set (dropWhile isWhiteSpace s)"
    unfolding trim_def set_rev using set_dropWhileD by fastforce
  also have "\<dots> \<subseteq> set s" using set_dropWhileD by fastforce
  finally show ?thesis .
qed

lemma set_unescapeNewlines: "set (unescapeNewlines s) \<subseteq> insert (CHR 0x0A) (set s)"
  by (induction s rule: unescapeNewlines.induct) auto

lemma set_removeAngleBrackets:
  "CHR ''<'' \<notin> set (removeAngleBrackets s) \<and> CHR ''>'' \<notin> set (removeAngleBrackets s)"
  by (simp add: removeAngleBrackets_def)

lemma dropWhile_no_leading_id:
  "\<not> startsWithWhiteSpace s \<Longrightarrow> dropWhile isWhiteSpace s = s"
  by (cases s) (simp_all add: startsWithWhiteSpace_def)

lemma trim_idem: "trim (trim s) = trim s"
proof -
  have a: "dropWhile isWhiteSpace (trim s) = trim s"
    by (rule dropWhile_no_leading_id) (rule trim_no_leading)
  have "\<not> startsWithWhiteSpace (rev (trim s))"
    using trim_no_trailing [of s] by (simp add: endsWithWhiteSpace_def)
  then have b: "dropWhile isWhiteSpace (rev (trim s)) = rev (trim s)"
    by (rule dropWhile_no_leading_id)
  show ?thesis
    unfolding trim_def [of "trim s"] a b by simp
qed

section \<open>Properties of the validation\<close>

lemma runChecks_descriptionSchema:
  "runChecks descriptionSchema d [] =
     (trim d,
      (if length d < 10 then [''Description must be at least 10 characters''] else [])
      @ (if 5000 < length d then [''Description must be at most 5000 characters''] else []))"
  by (simp add: descriptionSchema_def MIN_DESCRIPTION_LENGTH_def MAX_DESCRIPTION_LENGTH_def)

lemma validateDescription_accepts:
  "10 \<le> length d \<Longrightarrow> length d \<le> 5000 \<Longrightarrow> validateDescription d = Inr (trim d)"
  by (simp add: validateDescription_def zodStringParse_def runChecks_descriptionSchema)

lemma validateDescription_too_short:
  "length d < 10 \<Longrightarrow>
   validateDescription d =
     Inl \<lparr>type = VALIDATION_ERROR,
          message = ''Invalid description: Description must be at least 10 characters'',
          details = ZodError [''Description must be at least 10 characters'']\<rparr>"
  by (simp add: validateDescription_def zodStringParse_def runChecks_descriptionSchema
      firstIssueMessage_def)

lemma validateDescription_too_long:
  "5000 < length d \<Longrightarrow>
   validateDescription d =
     Inl \<lparr>type = VALIDATION_ERROR,
          message = ''Invalid description: Description must be at most 5000 characters'',
          details = ZodError [''Description must be at most 5000 characters'']\<rparr>"
  by (simp add: validateDescription_def zodStringParse_def runChecks_descriptionSchema
      firstIssueMessage_def)

text \<open>
  The bounds are compared with the length of the string as it is passed in: the schema
  trims after its two length checks.
\<close>

lemma validateDescription_fails_iff:
  "isl (validateDescription d) \<longleftrightarrow> length d < 10 \<or> 5000 < length d"
proof (cases "length d < 10 \<or> 5000 < length d")
  case True
  then show ?thesis
    using validateDescription_too_short [of d] validateDescription_too_long [of d] by auto
next
  case False
  then show ?thesis using validateDescription_accepts [of d] by auto
qed

text \<open>
  On the path of the interactive loop the string is sanitized, hence trimmed, before it is
  validated: there the bounds are bounds on the trimmed text, which is returned as it is.
\<close>

lemma promptForDescription_bounds:
  "trim (sanitizeInput (joinLines ls)) = sanitizeInput (joinLines ls)
   \<and> (isl (promptForDescription ls) \<longleftrightarrow>
        length (sanitizeInput (joinLines ls)) < 10 \<or> 5000 < length (sanitizeInput (joinLines ls)))
   \<and> (\<not> isl (promptForDescription ls) \<longrightarrow>
        promptForDescription ls = Inr (sanitizeInput (joinLines ls)))"
proof -
  let ?s = "sanitizeInput (joinLines ls)"
  have t: "trim ?s = ?s" by (simp add: sanitizeInput_def trim_idem)
  have "\<not> isl (promptForDescription ls) \<longrightarrow> promptForDescription ls = Inr ?s"
    using validateDescription_accepts [of ?s] t
    by (auto simp add: promptForDescription_def validateDescription_fails_iff)
  with t show ?thesis
    by (simp add: promptForDescription_def validateDescription_fails_iff)
qed

text \<open>A description that fails validation ends the request before the client is used.\<close>

lemma processRequest_invalid:
  "promptForDescription ls = Inl e \<Longrightarrow> processRequest c cfg now ls hint = (Inl e, c)"
  by (simp add: processRequest_def)

lemma trim_padded:
  "trim (replicate 4995 (CHR ''a'') @ replicate 10 (CHR '' '')) = replicate 4995 (CHR ''a'')"
  by (simp add: trim_def isWhiteSpace_def dropWhile_append)

section \<open>Properties of the service\<close>

lemma stringIncludes_sublist: "stringIncludes hay needle \<longleftrightarrow> sublist needle hay"
  by (induction hay) (auto simp: sublist_Cons_right)

lemma splitAux_nonempty: "splitAux cur inRun s \<noteq> []"
  by (induction s arbitrary: cur inRun) simp_all

lemma splitWhiteSpace_nonempty: "0 < length (splitWhiteSpace s)"
  by (simp add: splitWhiteSpace_def splitAux_nonempty)

lemma systemPrompt_variants:
  "distinct [generateSystemPrompt None, generateSystemPrompt (Some SHORT),
             generateSystemPrompt (Some MEDIUM), generateSystemPrompt (Some LONG)]"
  by (simp add: generateSystemPrompt_def)

lemma handleOpenAIError_throws: "\<exists>a. handleOpenAIError e = Inl a \<and> details a = Caught e"
  by (cases e) auto

lemma catchBlock_throws: "\<exists>a. catchBlock e = Inl a \<and> details a = Caught e"
  using handleOpenAIError_throws [of e] by (auto simp: catchBlock_def)

lemma catchBlock_no_content:
  "catchBlock (OtherError ''No paraphrase generated from the API'') =
     Inl \<lparr>type = UNKNOWN_ERROR,
          message = ''An unexpected error occurred while calling OpenAI API'',
          details = Caught (OtherError ''No paraphrase generated from the API'')\<rparr>"
  by (simp add: catchBlock_def)

lemma noUsableText_iff:
  "noUsableText completion \<longleftrightarrow>
     paraphrasedText completion = None \<or> paraphrasedText completion = Some []"
  by (auto split: list.splits choice.splits option.splits completionMessage.splits)

lemma paraphrase_client_throws:
  "respond c (completionRequest cfg request) = Inl e \<Longrightarrow>
   paraphrase c cfg now request =
     (catchBlock e, c\<lparr>sent := sent c @ [completionRequest cfg request]\<rparr>)"
  by (simp add: paraphrase_def create_def)

lemma paraphrase_no_text:
  "respond c (completionRequest cfg request) = Inr completion \<Longrightarrow> noUsableText completion \<Longrightarrow>
   paraphrase c cfg now request =
     (catchBlock (OtherError ''No paraphrase generated from the API''),
      c\<lparr>sent := sent c @ [completionRequest cfg request]\<rparr>)"
  unfolding noUsableText_iff
  by (auto simp add: paraphrase_def create_def simp del: paraphrasedText.simps)

lemma paraphrase_text:
  "respond c (completionRequest cfg request) = Inr completion \<Longrightarrow> \<not> noUsableText completion \<Longrightarrow>
   paraphrase c cfg now request =
     (Inr (Some \<lparr>original = description request,
                 paraphrased = the (paraphrasedText completion),
                 timestamp = now,
                 tokensUsed = map_option total_tokens (usage completion)\<rparr>),
      c\<lparr>sent := sent c @ [completionRequest cfg request]\<rparr>)"
  unfolding noUsableText_iff
  by (auto simp add: paraphrase_def create_def simp del: paraphrasedText.simps split: option.splits)

section \<open>The claims\<close>

subsection \<open>C1: the bounds of validateDescription\<close>

text \<open>
  C1. \<open>validateDescription\<close> should fail exactly when the trimmed length of its input is
  below 10 or above 5000. The schema chains \<^verbatim>\<open>trim\<close> after \<^verbatim>\<open>min\<close> and \<^verbatim>\<open>max\<close>, so
  the bounds meet the untrimmed string: the letter a followed by nine spaces has trimmed
  length 1 and is accepted, and returned as the one-letter description; 4995 letters
  followed by ten spaces have trimmed length 4995 and are rejected as too long.
\<close>

theorem validateDescription_padded_input:
  "length (trim ''a         '') = 1
   \<and> validateDescription ''a         '' = Inr ''a''
   \<and> length (trim (replicate 4995 (CHR ''a'') @ replicate 10 (CHR '' ''))) = 4995
   \<and> validateDescription (replicate 4995 (CHR ''a'') @ replicate 10 (CHR '' '')) =
       Inl \<lparr>type = VALIDATION_ERROR,
            message = ''Invalid description: Description must be at most 5000 characters'',
            details = ZodError [''Description must be at most 5000 characters'']\<rparr>"
proof -
  have t: "trim ''a         '' = ''a''"
    by (simp add: trim_def isWhiteSpace_def)
  have "validateDescription ''a         '' = Inr (trim ''a         '')"
    by (rule validateDescription_accepts) simp_all
  with t have a: "validateDescription ''a         '' = Inr ''a''" by simp
  have b: "length (trim (replicate 4995 (CHR ''a'') @ replicate 10 (CHR '' ''))) = 4995"
    by (simp add: trim_padded)
  have c: "validateDescription (replicate 4995 (CHR ''a'') @ replicate 10 (CHR '' '')) =
       Inl \<lparr>type = VALIDATION_ERROR,
            message = ''Invalid description: Description must be at most 5000 characters'',
            details = ZodError [''Description must be at most 5000 characters'']\<rparr>"
    by (rule validateDescription_too_long) simp
  from t a b c show ?thesis by simp
qed

subsection \<open>C2: isSignificantlyDifferent\<close>

text \<open>
  C2, as the specification words it, fails: texts that differ can be judged not
  significantly different, and the words counted are those of the original, not those of
  the paraphrase. With the texts \<open>a b c d\<close> and \<open>a b c e\<close> the source answers false where
  the specification's wording answers true; with \<open>a a a b\<close> and \<open>a c d e\<close> the source
  answers false on an overlap of 3/4, where the specification's overlap is 1/4.
\<close>

theorem isSignificantlyDifferent_counterexample:
  "isSignificantlyDifferent ''a b c d'' ''a b c e'' = False
   \<and> specSignificantlyDifferent ''a b c d'' ''a b c e'' = True
   \<and> isSignificantlyDifferent ''a a a b'' ''a c d e'' = False
   \<and> specOverlap ''a a a b'' ''a c d e'' = 1 / 4
   \<and> originalWordOverlap ''a a a b'' ''a c d e'' = 3 / 4"
proof -
  have "isSignificantlyDifferent ''a b c d'' ''a b c e'' = False" by code_simp
  moreover have "specSignificantlyDifferent ''a b c d'' ''a b c e'' = True" by code_simp
  moreover have "isSignificantlyDifferent ''a a a b'' ''a c d e'' = False" by code_simp
  moreover have "specOverlap ''a a a b'' ''a c d e'' = 1 / 4" by code_simp
  moreover have "originalWordOverlap ''a a a b'' ''a c d e'' = 3 / 4" by code_simp
  ultimately show ?thesis by simp
qed

text \<open>
  C2, amended. \<open>isSignificantlyDifferent original paraphrased\<close> is true exactly when the
  two texts are not identical up to case and the word overlap is below 0.7, the overlap
  being the number of words of the original that are also present in the paraphrase,
  divided by the larger of the two word counts (which is never zero). In whole numbers:
  ten times the count is below seven times the larger word count. The two examples of the
  specification hold.
\<close>

theorem isSignificantlyDifferent_overlap:
  "(isSignificantlyDifferent orig para \<longleftrightarrow>
      toLowerCase orig \<noteq> toLowerCase para \<and> originalWordOverlap orig para < 7 / 10)
   \<and> (isSignificantlyDifferent orig para \<longleftrightarrow>
      toLowerCase orig \<noteq> toLowerCase para
      \<and> 10 * length (filter (\<lambda>word. word \<in> set (splitWhiteSpace (toLowerCase para)))
                       (splitWhiteSpace (toLowerCase orig)))
        < 7 * max (length (splitWhiteSpace (toLowerCase orig)))
                  (length (splitWhiteSpace (toLowerCase para))))
   \<and> 0 < max (length (splitWhiteSpace (toLowerCase orig)))
             (length (splitWhiteSpace (toLowerCase para)))
   \<and> isSignificantlyDifferent ''A red shirt'' ''A red shirt'' = False
   \<and> isSignificantlyDifferent ''A red large cotton shirt'' ''Blue denim pants'' = True"
proof -
  let ?ow = "splitWhiteSpace (toLowerCase orig)"
  let ?pw = "splitWhiteSpace (toLowerCase para)"
  let ?k = "length (filter (\<lambda>word. word \<in> set ?pw) ?ow)"
  let ?m = "max (length ?ow) (length ?pw)"
  have m: "0 < ?m" unfolding less_max_iff_disj using splitWhiteSpace_nonempty by blast
  have a: "isSignificantlyDifferent orig para \<longleftrightarrow>
      toLowerCase orig \<noteq> toLowerCase para \<and> originalWordOverlap orig para < 7 / 10"
    by (simp add: isSignificantlyDifferent_def originalWordOverlap_def Let_def)
  have "real ?k / real ?m < 7 / 10 \<longleftrightarrow> real ?k * 10 < 7 * real ?m"
    using m by (simp add: divide_less_eq)
  also have "\<dots> \<longleftrightarrow> real (10 * ?k) < real (7 * ?m)" by (simp add: mult.commute)
  also have "\<dots> \<longleftrightarrow> 10 * ?k < 7 * ?m" by (rule of_nat_less_iff)
  finally have q: "originalWordOverlap orig para < 7 / 10 \<longleftrightarrow> 10 * ?k < 7 * ?m"
    by (simp add: originalWordOverlap_def Let_def)
  have e1: "isSignificantlyDifferent ''A red shirt'' ''A red shirt'' = False"
    by (simp add: isSignificantlyDifferent_def)
  have e2: "isSignificantlyDifferent ''A red large cotton shirt'' ''Blue denim pants'' = True"
    by code_simp
  from a q m e1 e2 show ?thesis by simp
qed

theorem isSignificantlyDifferent_overlap_witness:
  "isSignificantlyDifferent ''Soft cotton shirt in red'' ''soft   COTTON shirt in blue'' = False
   \<and> originalWordOverlap ''Soft cotton shirt in red'' ''soft   COTTON shirt in blue'' = 4 / 5"
proof -
  have "originalWordOverlap ''Soft cotton shirt in red'' ''soft   COTTON shirt in blue'' = 4 / 5"
    by code_simp
  with isSignificantlyDifferent_overlap
    [of "''Soft cotton shirt in red''" "''soft   COTTON shirt in blue''"]
  show ?thesis by simp
qed

subsection \<open>C3: a completion without usable text\<close>

text \<open>
  C3, as stated, fails: with a stubbed endpoint that returns an empty candidate list the
  error \<open>paraphrase\<close> raises is tagged \<open>UNKNOWN_ERROR\<close>, not \<open>API_ERROR\<close>.
\<close>

theorem paraphrase_empty_candidates_counterexample:
  "failureType (fst (paraphrase (stubClient (Inr \<lparr>choices = [], usage = None\<rparr>))
                       exampleConfig 0 walletRequest)) = Some UNKNOWN_ERROR
   \<and> failureType (fst (paraphrase (stubClient (Inr \<lparr>choices = [], usage = None\<rparr>))
                       exampleConfig 0 walletRequest)) \<noteq> Some API_ERROR"
  by (simp add: paraphrase_def create_def stubClient_def catchBlock_def failureType_def)

text \<open>
  C3, amended. If the call to the endpoint succeeds but the completion has no usable text
  (no candidate, or a first candidate whose message or content is missing, or whose
  content is empty once trimmed), \<open>paraphrase\<close> fails with the error tagged
  \<open>UNKNOWN_ERROR\<close> whose cause is the error \<open>No paraphrase generated from the API\<close>; and
  whenever \<open>paraphrase\<close> returns a response, its paraphrased text is not empty.
\<close>

theorem paraphrase_no_usable_text:
  "(respond c (completionRequest cfg request) = Inr completion \<and> noUsableText completion \<longrightarrow>
      fst (paraphrase c cfg now request) =
        Inl \<lparr>type = UNKNOWN_ERROR,
             message = ''An unexpected error occurred while calling OpenAI API'',
             details = Caught (OtherError ''No paraphrase generated from the API'')\<rparr>)
   \<and> (\<forall>r. fst (paraphrase c cfg now request) = Inr (Some r) \<longrightarrow> paraphrased r \<noteq> [])"
proof -
  have a: "respond c (completionRequest cfg request) = Inr completion \<and> noUsableText completion \<longrightarrow>
      fst (paraphrase c cfg now request) =
        Inl \<lparr>type = UNKNOWN_ERROR,
             message = ''An unexpected error occurred while calling OpenAI API'',
             details = Caught (OtherError ''No paraphrase generated from the API'')\<rparr>"
    by (simp add: paraphrase_no_text catchBlock_no_content del: noUsableText.simps)
  have b: "paraphrased r \<noteq> []" if ok: "fst (paraphrase c cfg now request) = Inr (Some r)" for r
  proof (cases "respond c (completionRequest cfg request)")
    case (Inl e)
    with ok catchBlock_throws [of e] show ?thesis
      by (auto simp add: paraphrase_client_throws)
  next
    case (Inr completion)
    show ?thesis
    proof (cases "noUsableText completion")
      case True
      with Inr ok show ?thesis
        by (simp add: paraphrase_no_text catchBlock_no_content del: noUsableText.simps)
    next
      case False
      then obtain t where "paraphrasedText completion = Some t" "t \<noteq> []"
        unfolding noUsableText_iff by (cases "paraphrasedText completion") auto
      with Inr False ok show ?thesis
        by (auto simp add: paraphrase_text simp del: noUsableText.simps paraphrasedText.simps)
    qed
  qed
  from a b show ?thesis by blast
qed

theorem paraphrase_no_usable_text_witness:
  "fst (paraphrase (stubClient (Inr \<lparr>choices = [Choice (Some (CompletionMessage None))],
                                      usage = None\<rparr>))
          exampleConfig 0 walletRequest) =
     Inl \<lparr>type = UNKNOWN_ERROR,
          message = ''An unexpected error occurred while calling OpenAI API'',
          details = Caught (OtherError ''No paraphrase generated from the API'')\<rparr>"
  using paraphrase_no_usable_text
    [of "stubClient (Inr \<lparr>choices = [Choice (Some (CompletionMessage None))], usage = None\<rparr>)"
        exampleConfig walletRequest
        "\<lparr>choices = [Choice (Some (CompletionMessage None))], usage = None\<rparr>" 0]
  by (simp add: stubClient_def)

subsection \<open>C4: the classification of handleOpenAIError\<close>

text \<open>
  C4. \<open>handleOpenAIError\<close> classifies in this order: an API error with status 401 is an
  \<open>API_KEY_ERROR\<close>, one with status 429 a \<open>RATE_LIMIT_ERROR\<close>, any other API error an
  \<open>API_ERROR\<close> whose message contains the upstream message; another error whose message
  contains \<open>ECONNREFUSED\<close> or \<open>ETIMEDOUT\<close> is a \<open>NETWORK_ERROR\<close>; anything else is an
  \<open>UNKNOWN_ERROR\<close>. When the endpoint throws, the outcome of \<open>paraphrase\<close> is this
  classification of what was thrown, whatever the request was.
\<close>

theorem handleOpenAIError_classification:
  "handleOpenAIError (APIError (Some 401) msg) =
     Inl \<lparr>type = API_KEY_ERROR,
          message = ''Invalid OpenAI API key. Please check your configuration.'',
          details = Caught (APIError (Some 401) msg)\<rparr>
   \<and> handleOpenAIError (APIError (Some 429) msg) =
     Inl \<lparr>type = RATE_LIMIT_ERROR,
          message = ''OpenAI API rate limit exceeded. Please try again later.'',
          details = Caught (APIError (Some 429) msg)\<rparr>
   \<and> (status \<noteq> Some 401 \<and> status \<noteq> Some 429 \<longrightarrow>
        handleOpenAIError (APIError status msg) =
          Inl \<lparr>type = API_ERROR, message = ''OpenAI API error: '' @ msg,
               details = Caught (APIError status msg)\<rparr>
        \<and> sublist msg (''OpenAI API error: '' @ msg))
   \<and> (sublist ''ECONNREFUSED'' msg \<or> sublist ''ETIMEDOUT'' msg \<longrightarrow>
        handleOpenAIError (OtherError msg) =
          Inl \<lparr>type = NETWORK_ERROR,
               message = ''Unable to connect to OpenAI API. Please check your internet connection.'',
               details = Caught (OtherError msg)\<rparr>)
   \<and> (\<not> sublist ''ECONNREFUSED'' msg \<and> \<not> sublist ''ETIMEDOUT'' msg \<longrightarrow>
        handleOpenAIError (OtherError msg) =
          Inl \<lparr>type = UNKNOWN_ERROR,
               message = ''An unexpected error occurred while calling OpenAI API'',
               details = Caught (OtherError msg)\<rparr>)
   \<and> handleOpenAIError NonError =
        Inl \<lparr>type = UNKNOWN_ERROR,
             message = ''An unexpected error occurred while calling OpenAI API'',
             details = Caught NonError\<rparr>
   \<and> (respond c (completionRequest cfg request) = Inl e \<longrightarrow>
        fst (paraphrase c cfg now request) = map_sum id (\<lambda>_. None) (handleOpenAIError e))"
proof -
  have throws: "respond c (completionRequest cfg request) = Inl e \<longrightarrow>
        fst (paraphrase c cfg now request) = map_sum id (\<lambda>_. None) (handleOpenAIError e)"
    using handleOpenAIError_throws [of e]
    by (auto simp add: paraphrase_client_throws catchBlock_def)
  have "sublist msg (''OpenAI API error: '' @ msg)"
    by (rule suffix_imp_sublist) (simp add: suffix_def)
  with throws show ?thesis
    by (simp add: stringIncludes_sublist del: stringIncludes.simps)
qed

theorem handleOpenAIError_classification_witness:
  "failureType (handleOpenAIError (APIError (Some 500) ''Internal server error'')) = Some API_ERROR
   \<and> failureType (handleOpenAIError (OtherError ''connect ECONNREFUSED 127.0.0.1:443''))
       = Some NETWORK_ERROR
   \<and> failureType (handleOpenAIError (OtherError ''socket hang up'')) = Some UNKNOWN_ERROR
   \<and> failureType (fst (paraphrase (stubClient (Inl (APIError (Some 401) ''Unauthorized'')))
                          exampleConfig 0 walletRequest)) = Some API_KEY_ERROR"
proof -
  have s1: "sublist ''ECONNREFUSED'' ''connect ECONNREFUSED 127.0.0.1:443''" by code_simp
  have s2: "\<not> sublist ''ECONNREFUSED'' ''socket hang up''" by code_simp
  have s3: "\<not> sublist ''ETIMEDOUT'' ''socket hang up''" by code_simp
  have a: "failureType (handleOpenAIError (APIError (Some 500) ''Internal server error''))
           = Some API_ERROR"
    using handleOpenAIError_classification [of "''Internal server error''" "Some 500"]
    by (simp add: failureType_def)
  have b: "failureType (handleOpenAIError (OtherError ''connect ECONNREFUSED 127.0.0.1:443''))
           = Some NETWORK_ERROR"
    using handleOpenAIError_classification [of "''connect ECONNREFUSED 127.0.0.1:443''"] s1
    by (simp add: failureType_def)
  have c: "failureType (handleOpenAIError (OtherError ''socket hang up'')) = Some UNKNOWN_ERROR"
    using handleOpenAIError_classification [of "''socket hang up''"] s2 s3
    by (simp add: failureType_def)
  have d: "failureType (fst (paraphrase (stubClient (Inl (APIError (Some 401) ''Unauthorized'')))
                          exampleConfig 0 walletRequest)) = Some API_KEY_ERROR"
    using handleOpenAIError_classification
      [of "''Unauthorized''" None "stubClient (Inl (APIError (Some 401) ''Unauthorized''))"
          exampleConfig walletRequest "APIError (Some 401) ''Unauthorized''" 0]
    by (simp add: failureType_def stubClient_def)
  from a b c d show ?thesis by simp
qed

subsection \<open>C5: the response of a successful call\<close>

text \<open>
  C5, as stated, fails: a first candidate whose text is one space is not empty, yet
  \<open>paraphrase\<close> returns no response for it; it fails as it does for a completion without
  content.
\<close>

theorem paraphrase_blank_text_counterexample:
  "'' '' \<noteq> []
   \<and> fst (paraphrase (stubClient (Inr (stubCompletion '' '' 89))) exampleConfig 0 walletRequest) =
       Inl \<lparr>type = UNKNOWN_ERROR,
            message = ''An unexpected error occurred while calling OpenAI API'',
            details = Caught (OtherError ''No paraphrase generated from the API'')\<rparr>"
  by (simp add: paraphrase_def create_def stubClient_def stubCompletion_def catchBlock_def
      trim_def isWhiteSpace_def)

text \<open>
  C5, amended. For every request and every successful completion whose first candidate has
  a text that is not empty once trimmed, and whose reported total token usage is \<open>u\<close>,
  \<open>paraphrase\<close> returns the response whose original is the description of the request,
  whose paraphrased text is the trimmed text, whose timestamp is the current time and whose
  tokensUsed is \<open>u\<close>.
\<close>

theorem paraphrase_success:
  "respond c (completionRequest cfg request) = Inr completion
   \<and> choices completion = Choice (Some (CompletionMessage (Some text))) # rest
   \<and> trim text \<noteq> []
   \<and> usage completion = Some (CompletionUsage u)
   \<longrightarrow> fst (paraphrase c cfg now request) =
         Inr (Some \<lparr>original = description request, paraphrased = trim text,
                    timestamp = now, tokensUsed = Some u\<rparr>)"
  by (simp add: paraphrase_def create_def)

theorem paraphrase_success_witness:
  "fst (paraphrase (stubClient (Inr (stubCompletion walletRewrite 89))) exampleConfig 1762128000000
          walletRequest) =
     Inr (Some \<lparr>original = ''This premium leather wallet features multiple card slots, a bill compartment, and RFID protection for secure storage.'',
                paraphrased = ''A high-quality leather wallet with card slots, bill space, and technology to protect your cards from scanning.'',
                timestamp = 1762128000000, tokensUsed = Some 89\<rparr>)"
proof -
  have t: "trim walletRewrite = walletRewrite"
    by (simp add: trim_def walletRewrite_def isWhiteSpace_def)
  have "trim walletRewrite \<noteq> []" unfolding t by (simp add: walletRewrite_def)
  with paraphrase_success
    [of "stubClient (Inr (stubCompletion walletRewrite 89))" exampleConfig walletRequest
        "stubCompletion walletRewrite 89" walletRewrite "[]" 89 1762128000000]
  show ?thesis
    unfolding t by (simp add: stubClient_def stubCompletion_def walletRequest_def walletRewrite_def)
qed

subsection \<open>C6: the length clause of the system prompt\<close>

text \<open>
  C6, as stated, fails: without a hint the prompt is not the prompt of the same-length
  hint.
\<close>

theorem generateSystemPrompt_default_counterexample:
  "generateSystemPrompt None \<noteq> generateSystemPrompt (Some MEDIUM)"
  by (simp add: generateSystemPrompt_def)

text \<open>
  C6, amended. With a hint, \<open>generateSystemPrompt\<close> puts exactly one of three fixed,
  different clauses (shorter, same length, longer) after the fixed opening sentences and
  before the fixed closing sentence; without a hint it puts no clause there, so that prompt
  differs from each of the three.
\<close>

theorem generateSystemPrompt_clauses:
  "generateSystemPrompt (Some t) = promptOpening @ lengthClause t @ promptClosing
   \<and> generateSystemPrompt None = promptOpening @ promptClosing
   \<and> distinct [lengthClause SHORT, lengthClause MEDIUM, lengthClause LONG]
   \<and> generateSystemPrompt None \<noteq> generateSystemPrompt (Some t)"
  by (cases t) (simp_all add: generateSystemPrompt_def promptOpening_def promptClosing_def)

subsection \<open>C7: the prompt builder is a function of its inputs\<close>

text \<open>
  C7. The two messages are the system prompt of the hint and the user prompt of the
  description, so requests with the same description and hint get the same messages; the
  system message is the same for requests with the same hint, whatever their descriptions;
  and the system prompt has exactly four variants, one for no hint and one for each of the
  three hints, all different.
\<close>

theorem buildMessages_pure:
  "buildMessages request =
     [\<lparr>role = System, content = generateSystemPrompt (targetLength request)\<rparr>,
      \<lparr>role = User, content = generateUserPrompt (description request)\<rparr>]
   \<and> (description r1 = description r2 \<and> targetLength r1 = targetLength r2 \<longrightarrow>
        buildMessages r1 = buildMessages r2)
   \<and> (targetLength r1 = targetLength r2 \<longrightarrow>
        filter (\<lambda>m. role m = System) (buildMessages r1)
        = filter (\<lambda>m. role m = System) (buildMessages r2))
   \<and> distinct [generateSystemPrompt None, generateSystemPrompt (Some SHORT),
               generateSystemPrompt (Some MEDIUM), generateSystemPrompt (Some LONG)]
   \<and> generateSystemPrompt hint \<in> {generateSystemPrompt None, generateSystemPrompt (Some SHORT),
               generateSystemPrompt (Some MEDIUM), generateSystemPrompt (Some LONG)}"
proof -
  have "hint = None \<or> hint = Some SHORT \<or> hint = Some MEDIUM \<or> hint = Some LONG"
    by (cases hint) (auto intro: TargetLength.exhaust)
  then have "generateSystemPrompt hint \<in> {generateSystemPrompt None, generateSystemPrompt (Some SHORT),
               generateSystemPrompt (Some MEDIUM), generateSystemPrompt (Some LONG)}"
    by auto
  with systemPrompt_variants show ?thesis
    by (simp add: buildMessages_def)
qed

theorem buildMessages_pure_witness:
  "filter (\<lambda>m. role m = System) (buildMessages walletRequest)
     = filter (\<lambda>m. role m = System)
         (buildMessages \<lparr>description = ''A red large cotton shirt'', targetLength = None\<rparr>)"
proof -
  have "targetLength walletRequest
        = targetLength \<lparr>description = ''A red large cotton shirt'', targetLength = None\<rparr>"
    by (simp add: walletRequest_def)
  with buildMessages_pure
    [of walletRequest walletRequest
        "\<lparr>description = ''A red large cotton shirt'', targetLength = None\<rparr>"]
  have "filter (\<lambda>m. role m = System) (buildMessages walletRequest)
     = filter (\<lambda>m. role m = System)
         (buildMessages \<lparr>description = ''A red large cotton shirt'', targetLength = None\<rparr>)"
    by blast
  then show ?thesis .
qed

subsection \<open>C8: every failure is raised as one tagged error\<close>

text \<open>
  C8. \<open>handleOpenAIError\<close> always throws, and what it throws carries the value it was given
  as its cause. \<open>paraphrase\<close> never returns \<^verbatim>\<open>undefined\<close>; when the endpoint throws, it
  fails with an error whose cause is what was thrown; when the completion has no usable
  text, it fails with an error whose cause is the error raised for that; and every error it
  raises carries one of the six tags.
\<close>

theorem paraphrase_failure_tagged:
  "(\<exists>a. handleOpenAIError e = Inl a \<and> details a = Caught e)
   \<and> fst (paraphrase c cfg now request) \<noteq> Inr None
   \<and> (respond c (completionRequest cfg request) = Inl e \<longrightarrow>
        (\<exists>a. fst (paraphrase c cfg now request) = Inl a \<and> details a = Caught e))
   \<and> (respond c (completionRequest cfg request) = Inr completion \<and> noUsableText completion \<longrightarrow>
        (\<exists>a. fst (paraphrase c cfg now request) = Inl a
             \<and> details a = Caught (OtherError ''No paraphrase generated from the API'')))
   \<and> (\<forall>a. fst (paraphrase c cfg now request) = Inl a \<longrightarrow>
        type a \<in> {API_KEY_ERROR, NETWORK_ERROR, API_ERROR, VALIDATION_ERROR, RATE_LIMIT_ERROR,
                  UNKNOWN_ERROR})"
proof -
  have never_undefined: "fst (paraphrase c cfg now request) \<noteq> Inr None"
  proof (cases "respond c (completionRequest cfg request)")
    case (Inl x)
    with catchBlock_throws [of x] show ?thesis
      by (auto simp add: paraphrase_client_throws)
  next
    case (Inr completion')
    show ?thesis
    proof (cases "noUsableText completion'")
      case True
      with Inr show ?thesis
        by (simp add: paraphrase_no_text catchBlock_no_content del: noUsableText.simps)
    next
      case False
      with Inr show ?thesis
        by (simp add: paraphrase_text del: noUsableText.simps paraphrasedText.simps)
    qed
  qed
  have thrown: "respond c (completionRequest cfg request) = Inl e \<longrightarrow>
        (\<exists>a. fst (paraphrase c cfg now request) = Inl a \<and> details a = Caught e)"
    using catchBlock_throws [of e] by (auto simp add: paraphrase_client_throws)
  have no_text: "respond c (completionRequest cfg request) = Inr completion \<and> noUsableText completion \<longrightarrow>
        (\<exists>a. fst (paraphrase c cfg now request) = Inl a
             \<and> details a = Caught (OtherError ''No paraphrase generated from the API''))"
    by (simp add: paraphrase_no_text catchBlock_no_content del: noUsableText.simps)
  have tags: "type a \<in> {API_KEY_ERROR, NETWORK_ERROR, API_ERROR, VALIDATION_ERROR,
                  RATE_LIMIT_ERROR, UNKNOWN_ERROR}" for a :: AppError
    by (cases "type a") simp_all
  from handleOpenAIError_throws [of e] never_undefined thrown no_text tags show ?thesis
    by blast
qed

theorem paraphrase_failure_tagged_witness:
  "(\<exists>a. fst (paraphrase (stubClient (Inl (APIError (Some 429) ''Too many requests'')))
                exampleConfig 0 walletRequest) = Inl a
        \<and> details a = Caught (APIError (Some 429) ''Too many requests''))
   \<and> (\<exists>a. fst (paraphrase (stubClient (Inr \<lparr>choices = [], usage = None\<rparr>))
                exampleConfig 0 walletRequest) = Inl a
        \<and> details a = Caught (OtherError ''No paraphrase generated from the API''))"
  using paraphrase_failure_tagged
      [of "APIError (Some 429) ''Too many requests''"
          "stubClient (Inl (APIError (Some 429) ''Too many requests''))"
          exampleConfig 0 walletRequest]
    paraphrase_failure_tagged
      [of _ "stubClient (Inr \<lparr>choices = [], usage = None\<rparr>)"
          exampleConfig 0 walletRequest "\<lparr>choices = [], usage = None\<rparr>"]
  by (simp add: stubClient_def)

subsection \<open>C9: sanitizeInput\<close>

text \<open>
  C9. For every input string, \<open>sanitizeInput\<close> returns a string that contains no
  \<open><\<close> and no \<open>>\<close> and that neither starts nor ends with white space.
\<close>

theorem sanitizeInput_clean:
  "CHR ''<'' \<notin> set (sanitizeInput input) \<and> CHR ''>'' \<notin> set (sanitizeInput input)
   \<and> \<not> startsWithWhiteSpace (sanitizeInput input)
   \<and> \<not> endsWithWhiteSpace (sanitizeInput input)"
proof -
  let ?r = "removeAngleBrackets input"
  have sub: "set (sanitizeInput input) \<subseteq> insert (CHR 0x0A) (set ?r)"
    unfolding sanitizeInput_def using set_trim set_unescapeNewlines by blast
  have "CHR ''<'' \<notin> insert (CHR 0x0A) (set ?r)" "CHR ''>'' \<notin> insert (CHR 0x0A) (set ?r)"
    using set_removeAngleBrackets [of input] by simp_all
  with sub have "CHR ''<'' \<notin> set (sanitizeInput input)" "CHR ''>'' \<notin> set (sanitizeInput input)"
    by blast+
  then show ?thesis
    by (simp add: sanitizeInput_def trim_no_leading trim_no_trailing)
qed

subsection \<open>C10: validateTargetLength\<close>

text \<open>
  C10. \<open>validateTargetLength\<close> returns \<^verbatim>\<open>undefined\<close> without raising when its argument is
  \<^verbatim>\<open>undefined\<close> or the empty string; for each of \<open>short\<close>, \<open>medium\<close> and \<open>long\<close> it returns
  the member of \<open>TargetLength\<close> of that value; for every other string that is not empty it
  throws an error tagged \<open>VALIDATION_ERROR\<close>.
\<close>

theorem validateTargetLength_cases:
  "validateTargetLength None = Inr None
   \<and> validateTargetLength (Some []) = Inr None
   \<and> validateTargetLength (Some (targetLengthValue t)) = Inr (Some t)
   \<and> validateTargetLength (Some ''short'') = Inr (Some SHORT)
   \<and> validateTargetLength (Some ''medium'') = Inr (Some MEDIUM)
   \<and> validateTargetLength (Some ''long'') = Inr (Some LONG)
   \<and> (s \<noteq> [] \<and> s \<noteq> ''short'' \<and> s \<noteq> ''medium'' \<and> s \<noteq> ''long'' \<longrightarrow>
        (\<exists>e. validateTargetLength (Some s) = Inl e \<and> type e = VALIDATION_ERROR))"
  by (cases t) (simp_all add: validateTargetLength_def targetLengthSchemaParse_def)

theorem validateTargetLength_cases_witness:
  "\<exists>e. validateTargetLength (Some ''Short'') = Inl e \<and> type e = VALIDATION_ERROR"
  using validateTargetLength_cases [of SHORT "''Short''"] by simp

end
